theory Spec2Isabelle
  imports Complex_Main "HOL-Library.AList"
begin

section \<open>Python values shared by the widgets\<close>

text \<open>
  Exceptions the modelled code can raise. A setter or handler that can raise returns
  \<open>py_error + state\<close>, with \<open>Inl\<close> for the exception.
\<close>

datatype py_error = ValueError | IndexError | TypeError | ZeroDivisionError | OverflowError

text \<open>Sequencing of steps that can raise: the first exception ends the sequence.\<close>

definition bind_err :: "py_error + 'a \<Rightarrow> ('a \<Rightarrow> py_error + 'b) \<Rightarrow> py_error + 'b" where
  "bind_err m f = (case m of Inl e \<Rightarrow> Inl e | Inr x \<Rightarrow> f x)"

text \<open>
  \<open>str.split()\<close> without arguments: the maximal runs of non-whitespace characters.
  \<open>strip().lstrip().split()\<close>, as \<open>add_style_class\<close> writes it, gives the same list.
\<close>

definition is_space :: "char \<Rightarrow> bool" where
  "is_space c = (c \<in> set [CHR '' '', CHR 0x09, CHR 0x0A, CHR 0x0B, CHR 0x0C, CHR 0x0D])"

fun split_acc :: "string \<Rightarrow> string \<Rightarrow> string list" where
  "split_acc cur [] = (if cur = [] then [] else [rev cur])"
| "split_acc cur (c # cs) =
     (if is_space c then (if cur = [] then split_acc [] cs else rev cur # split_acc [] cs)
      else split_acc (c # cur) cs)"

definition py_split :: "string \<Rightarrow> string list" where
  "py_split s = split_acc [] s"

section \<open>The style context of a native widget\<close>

text \<open>
  \<open>Gtk.StyleContext\<close> keeps the widget's style classes without duplicates:
  \<open>add_class\<close> of a class already present changes nothing, \<open>remove_class\<close> drops it.
\<close>

definition add_class :: "string \<Rightarrow> string list \<Rightarrow> string list" where
  "add_class k ks = (if k \<in> set ks then ks else ks @ [k])"

definition remove_class :: "string \<Rightarrow> string list \<Rightarrow> string list" where
  "remove_class k ks = removeAll k ks"

text \<open>\<open>Widget.add_style_class\<close> and \<open>Widget.remove_style_class\<close> on a \<open>str\<close> argument.\<close>

definition add_style_class :: "string \<Rightarrow> string list \<Rightarrow> string list" where
  "add_style_class class_name ks = fold add_class (py_split class_name) ks"

definition remove_style_class :: "string \<Rightarrow> string list \<Rightarrow> string list" where
  "remove_style_class class_name ks = fold remove_class (py_split class_name) ks"

section \<open>WorkspaceButton (fabric/hyprland/widgets.py)\<close>

text \<open>
  The label of a workspace button is a \<open>FormattedString\<close> evaluated with the button
  itself in scope. It is modelled as a function of the button's declared properties
  \<open>id\<close>, \<open>active\<close>, \<open>urgent\<close> and \<open>empty\<close>.
\<close>

type_synonym FormattedString = "int \<Rightarrow> bool \<Rightarrow> bool \<Rightarrow> bool \<Rightarrow> string"

record WorkspaceButton =
  wb_id :: int
  wb_label :: "FormattedString option"
  wb_active :: bool
  wb_urgent :: bool
  wb_empty :: bool
  wb_style_classes :: "string list"
  wb_gtk_label :: "string option"

definition do_bake_label :: "WorkspaceButton \<Rightarrow> WorkspaceButton" where
  "do_bake_label b =
     (case wb_label b of
        None \<Rightarrow> b
      | Some f \<Rightarrow> b\<lparr>wb_gtk_label := Some (f (wb_id b) (wb_active b) (wb_urgent b) (wb_empty b))\<rparr>)"

definition toggle_style_class :: "bool \<Rightarrow> string \<Rightarrow> WorkspaceButton \<Rightarrow> WorkspaceButton" where
  "toggle_style_class v k b =
     b\<lparr>wb_style_classes :=
         (if \<not> v then remove_style_class else add_style_class) k (wb_style_classes b)\<rparr>"

definition urgent_set :: "bool \<Rightarrow> WorkspaceButton \<Rightarrow> WorkspaceButton" where
  "urgent_set v b = do_bake_label (toggle_style_class v ''urgent'' (b\<lparr>wb_urgent := v\<rparr>))"

definition active_set :: "bool \<Rightarrow> WorkspaceButton \<Rightarrow> WorkspaceButton" where
  "active_set v b =
     (let b1 = b\<lparr>wb_active := v\<rparr>;
          b2 = (if v then urgent_set False b1 else b1)
      in do_bake_label (toggle_style_class v ''active'' b2))"

definition empty_set :: "bool \<Rightarrow> WorkspaceButton \<Rightarrow> WorkspaceButton" where
  "empty_set v b = do_bake_label (toggle_style_class v ''empty'' (b\<lparr>wb_empty := v\<rparr>))"

text \<open>
  \<open>WorkspaceButton.__init__\<close> after the base constructor: the three fields are
  initialised and each property is then assigned through its setter.
\<close>

definition WorkspaceButton_init :: "int \<Rightarrow> FormattedString option \<Rightarrow> string list \<Rightarrow> WorkspaceButton" where
  "WorkspaceButton_init i l classes =
     empty_set True (urgent_set False (active_set False
       \<lparr>wb_id = i, wb_label = l, wb_active = False, wb_urgent = False, wb_empty = True,
        wb_style_classes = classes, wb_gtk_label = None\<rparr>))"

section \<open>Numbers\<close>


section \<open>Enum lookup by name\<close>

text \<open>
  Modelled from the spec: \<open>get_enum_member\<close> of \<open>fabric.utils.helpers\<close> is not among the
  sources. The spec says of it: invalid enum-like string values fall back to a documented
  default rather than raising. \<open>names\<close> is the table of the strings that name a member of
  the enum; a value that already is a member is returned as it is.
\<close>

datatype 'e enum_arg = Name string | Member 'e

definition get_enum_member :: "(string \<Rightarrow> 'e option) \<Rightarrow> 'e enum_arg \<Rightarrow> 'e \<Rightarrow> 'e" where
  "get_enum_member names v dflt =
     (case v of
        Member m \<Rightarrow> m
      | Name s \<Rightarrow> (case names s of Some m \<Rightarrow> m | None \<Rightarrow> dflt))"

section \<open>CircularProgressBar (fabric/widgets/circularprogressbar.py)\<close>

datatype LineCap = BUTT | ROUND | SQUARE

record CircularProgressBar =
  cpb_value :: rat
  cpb_min_value :: rat
  cpb_max_value :: rat
  cpb_line_width :: int
  cpb_line_style :: LineCap
  cpb_pie :: bool
  cpb_queued_draws :: nat

definition queue_draw :: "CircularProgressBar \<Rightarrow> CircularProgressBar" where
  "queue_draw p = p\<lparr>cpb_queued_draws := Suc (cpb_queued_draws p)\<rparr>"

text \<open>
  Modelled from the spec: \<open>clamp\<close> of \<open>fabric.utils.helpers\<close> is not among the sources;
  out-of-range numeric values are clamped, that is replaced by the bound they pass.
\<close>

definition clamp :: "rat \<Rightarrow> rat \<Rightarrow> rat \<Rightarrow> rat" where
  "clamp v lo hi = max (min v hi) lo"


definition value_set :: "rat \<Rightarrow> CircularProgressBar \<Rightarrow> CircularProgressBar" where
  "value_set v p = queue_draw (p\<lparr>cpb_value := v\<rparr>)"

definition min_value_get :: "CircularProgressBar \<Rightarrow> rat" where
  "min_value_get p = cpb_min_value p"

definition max_value_get :: "CircularProgressBar \<Rightarrow> rat" where
  "max_value_get p = cpb_max_value p"

definition min_value_set :: "rat \<Rightarrow> CircularProgressBar \<Rightarrow> CircularProgressBar" where
  "min_value_set v p = queue_draw (p\<lparr>cpb_min_value := clamp v (min_value_get p) (max_value_get p)\<rparr>)"

definition max_value_set :: "rat \<Rightarrow> CircularProgressBar \<Rightarrow> py_error + CircularProgressBar" where
  "max_value_set v p =
     (if v = 0 then Inl ValueError else Inr (queue_draw (p\<lparr>cpb_max_value := v\<rparr>)))"


definition pie_set :: "bool \<Rightarrow> CircularProgressBar \<Rightarrow> CircularProgressBar" where
  "pie_set v p = queue_draw (p\<lparr>cpb_pie := v\<rparr>)"


definition line_width_set :: "int \<Rightarrow> CircularProgressBar \<Rightarrow> CircularProgressBar" where
  "line_width_set v p = queue_draw (p\<lparr>cpb_line_width := v\<rparr>)"

definition line_style_get :: "CircularProgressBar \<Rightarrow> LineCap" where
  "line_style_get p = cpb_line_style p"

definition line_style_set ::
  "(string \<Rightarrow> LineCap option) \<Rightarrow> LineCap enum_arg \<Rightarrow> CircularProgressBar \<Rightarrow> CircularProgressBar" where
  "line_style_set names v p = queue_draw (p\<lparr>cpb_line_style := get_enum_member names v BUTT\<rparr>)"

section \<open>AudioStream (fabric/audio/service.py)\<close>




section \<open>DateTime (fabric/widgets/datetime.py)\<close>

datatype log_entry = Warning string | Info string | Debug string

text \<open>
  What may be assigned to \<open>formatters\<close>: a tuple, a list, a single string, or any other
  iterable of strings (a set, a generator), which the setter does not look into.
\<close>

datatype formatters_arg = FTuple "string list" | FList "string list" | FStr string | FOther

record DateTime =
  dt_formatters :: "string list"
  dt_current_index :: int
  dt_interval :: int
  dt_repeater_id :: "nat option"
  dt_removed_sources :: "nat list"
  dt_gtk_label :: "string option"
  dt_log :: "log_entry list"

definition default_formatters :: "string list" where
  "default_formatters = [''%I:%M %p'', ''%A'', ''%m-%d-%Y'']"

definition formatters_get :: "DateTime \<Rightarrow> string list" where
  "formatters_get d = dt_formatters d"

definition formatters_set :: "formatters_arg \<Rightarrow> DateTime \<Rightarrow> DateTime" where
  "formatters_set v d =
     (let d1 = (case v of
                  FTuple xs \<Rightarrow> d\<lparr>dt_formatters := xs\<rparr>
                | FList xs \<Rightarrow> d\<lparr>dt_formatters := xs\<rparr>
                | FStr x \<Rightarrow> d\<lparr>dt_formatters := [x]\<rparr>
                | FOther \<Rightarrow> d)
      in if length (dt_formatters d1) < 1
         then d1\<lparr>dt_log := dt_log d1 @
                  [Warning ''[DateTime] passed in invalid list of formatters, using default formatters list''],
                 dt_formatters := default_formatters\<rparr>
         else d1)"

text \<open>
  Indexing a tuple: a negative index counts from the end, an index outside the tuple
  raises \<open>IndexError\<close>. \<open>strftime\<close> stands for \<open>time.strftime\<close> at the moment of the call.
\<close>

definition py_index :: "'a list \<Rightarrow> int \<Rightarrow> py_error + 'a" where
  "py_index xs i =
     (if 0 \<le> i \<and> i < int (length xs) then Inr (xs ! nat i)
      else if i < 0 \<and> - int (length xs) \<le> i then Inr (xs ! nat (int (length xs) + i))
      else Inl IndexError)"

definition do_format :: "(string \<Rightarrow> string) \<Rightarrow> DateTime \<Rightarrow> py_error + string" where
  "do_format strftime d =
     (case py_index (dt_formatters d) (dt_current_index d) of
        Inl e \<Rightarrow> Inl e
      | Inr f \<Rightarrow> Inr (strftime f))"

definition do_update_label :: "(string \<Rightarrow> string) \<Rightarrow> DateTime \<Rightarrow> py_error + DateTime" where
  "do_update_label strftime d =
     (case do_format strftime d of
        Inl e \<Rightarrow> Inl e
      | Inr t \<Rightarrow> Inr (d\<lparr>dt_gtk_label := Some t\<rparr>))"

definition do_check_invalid_index :: "DateTime \<Rightarrow> int \<Rightarrow> bool" where
  "do_check_invalid_index d i = ((i < 0) \<or> (i > int (length (formatters_get d)) - 1))"

definition do_cycle_next :: "(string \<Rightarrow> string) \<Rightarrow> DateTime \<Rightarrow> py_error + DateTime" where
  "do_cycle_next strftime d =
     (let d1 = d\<lparr>dt_current_index := dt_current_index d + 1\<rparr>;
          d2 = (if do_check_invalid_index d1 (dt_current_index d1)
                then d1\<lparr>dt_current_index := 0\<rparr> else d1)
      in do_update_label strftime d2)"

definition do_cycle_prev :: "(string \<Rightarrow> string) \<Rightarrow> DateTime \<Rightarrow> py_error + DateTime" where
  "do_cycle_prev strftime d =
     (let d1 = d\<lparr>dt_current_index := dt_current_index d - 1\<rparr>;
          d2 = (if do_check_invalid_index d1 (dt_current_index d1)
                then d1\<lparr>dt_current_index := int (length (formatters_get d1)) - 1\<rparr> else d1)
      in do_update_label strftime d2)"

text \<open>
  The \<open>interval\<close> setter: \<open>src\<close> is the source id \<open>invoke_repeater\<close> hands back.
  A repeater id of 0 is falsy, so it is not removed.
\<close>

definition interval_set :: "(string \<Rightarrow> string) \<Rightarrow> nat \<Rightarrow> int \<Rightarrow> DateTime \<Rightarrow> py_error + DateTime" where
  "interval_set strftime src v d =
     (let d1 = d\<lparr>dt_interval := v\<rparr>;
          d2 = (case dt_repeater_id d1 of
                  None \<Rightarrow> d1
                | Some r \<Rightarrow> if r = 0 then d1
                            else d1\<lparr>dt_removed_sources := dt_removed_sources d1 @ [r]\<rparr>);
          d3 = d2\<lparr>dt_repeater_id := Some src\<rparr>
      in do_update_label strftime d3)"

text \<open>\<open>DateTime.__init__\<close> after the base constructor.\<close>

definition DateTime_init ::
  "(string \<Rightarrow> string) \<Rightarrow> nat \<Rightarrow> formatters_arg \<Rightarrow> int \<Rightarrow> py_error + DateTime" where
  "DateTime_init strftime src formatters interval =
     interval_set strftime src interval
       (formatters_set formatters
          \<lparr>dt_formatters = [], dt_current_index = 0, dt_interval = interval,
           dt_repeater_id = None, dt_removed_sources = [], dt_gtk_label = None, dt_log = []\<rparr>)"

section \<open>Constructors as sequences of calls\<close>

text \<open>
  A constructor body is a fixed sequence of statements, some of them guarded by a test on
  an argument. Its model is the list of the calls it makes, in the order it makes them:
  the base constructors, property assignments (which run the setter), other methods of
  the native widget, and signal connections. A call that raises ends the list.
\<close>

datatype call = BaseInit string | Setter string | Native string | Connect string | Raise py_error

fun raised :: "call list \<Rightarrow> bool" where
  "raised [] = False"
| "raised (Raise e # cs) = True"
| "raised (c # cs) = raised cs"

definition then_calls :: "call list \<Rightarrow> call list \<Rightarrow> call list" where
  "then_calls xs ys = (if raised xs then xs else xs @ ys)"

section \<open>Widget (fabric/widgets/widget.py)\<close>

datatype Align = ALIGN_FILL | ALIGN_START | ALIGN_END | ALIGN_CENTER | ALIGN_BASELINE

datatype size_arg = SizeInt int | SizeSeq "int list"

datatype style_classes_arg = ClassesStr string | ClassesSeq "string list"

record Widget_args =
  a_name :: "string option"
  a_visible :: bool
  a_all_visible :: bool
  a_style :: "string option"
  a_style_classes :: "style_classes_arg option"
  a_tooltip_text :: "string option"
  a_tooltip_markup :: "string option"
  a_h_align :: "Align enum_arg option"
  a_v_align :: "Align enum_arg option"
  a_h_expand :: bool
  a_v_expand :: bool
  a_size :: "size_arg option"

text \<open>
  The truth value of an argument in \<open>if v_align:\<close>, \<open>if style_classes:\<close> and \<open>if style:\<close>:
  \<open>None\<close>, the empty string, the empty sequence and an enum member of value 0
  (\<open>Gtk.Align.FILL\<close>) are false.
\<close>

definition truthy_align :: "Align enum_arg option \<Rightarrow> bool" where
  "truthy_align v =
     (case v of None \<Rightarrow> False | Some (Name s) \<Rightarrow> s \<noteq> [] | Some (Member m) \<Rightarrow> m \<noteq> ALIGN_FILL)"

definition truthy_classes :: "style_classes_arg option \<Rightarrow> bool" where
  "truthy_classes v =
     (case v of None \<Rightarrow> False | Some (ClassesStr s) \<Rightarrow> s \<noteq> [] | Some (ClassesSeq xs) \<Rightarrow> xs \<noteq> [])"

definition truthy_str :: "string option \<Rightarrow> bool" where
  "truthy_str v = (case v of None \<Rightarrow> False | Some s \<Rightarrow> s \<noteq> [])"

text \<open>
  \<open>f(*((size, size) if isinstance(size, int) else size))\<close> for a method \<open>f\<close> of two
  arguments: a sequence of another length is a \<open>TypeError\<close>.
\<close>

definition size_call :: "string \<Rightarrow> size_arg option \<Rightarrow> call list" where
  "size_call f v =
     (case v of
        None \<Rightarrow> []
      | Some (SizeInt n) \<Rightarrow> [Native f]
      | Some (SizeSeq xs) \<Rightarrow> if length xs = 2 then [Native f] else [Native f, Raise TypeError])"

definition show_calls :: "bool \<Rightarrow> bool \<Rightarrow> call list" where
  "show_calls all_visible visible =
     (if all_visible then [Native ''show_all''] else if visible then [Native ''show''] else [])"

definition Widget_init :: "Widget_args \<Rightarrow> call list" where
  "Widget_init a =
     then_calls
       ([BaseInit ''Gtk.Widget'', BaseInit ''Service'']
        @ (if a_name a \<noteq> None then [Native ''set_name''] else [])
        @ (if a_tooltip_text a \<noteq> None then [Native ''set_tooltip_text''] else [])
        @ (if a_tooltip_markup a \<noteq> None then [Native ''set_tooltip_markup''] else [])
        @ (if truthy_align (a_v_align a) then [Setter ''v_align''] else [])
        @ (if truthy_align (a_h_align a) then [Setter ''h_align''] else [])
        @ [Setter ''v_expand'', Setter ''h_expand'']
        @ size_call ''set_size_request'' (a_size a))
       ((if truthy_classes (a_style_classes a) then [Native ''add_style_class''] else [])
        @ (if truthy_str (a_style a) then [Native ''set_style''] else [])
        @ show_calls (a_all_visible a) (a_visible a))"

section \<open>EventBox (fabric/widgets/eventbox.py)\<close>

text \<open>
  \<open>Container.__init__\<close> is not among the sources: \<open>container\<close> is the list of calls it
  makes for the arguments handed through to it.
\<close>

definition EventBox_init :: "call list \<Rightarrow> string list option \<Rightarrow> call list" where
  "EventBox_init container events =
     then_calls (BaseInit ''Gtk.EventBox'' # container)
       (if events \<noteq> None then [Native ''add_events''] else [])"

section \<open>CircularProgressBar.__init__\<close>

record CircularProgressBar_args =
  c_value :: rat
  c_min_value :: rat
  c_max_value :: rat
  c_line_width :: int
  c_line_style :: "LineCap enum_arg"
  c_pie :: bool

text \<open>
  What the constructor does itself, after the base constructors: the assignment to
  \<open>max_value\<close> raises for 0, and nothing after it runs then.
\<close>

definition CircularProgressBar_own_calls :: "CircularProgressBar_args \<Rightarrow> call list" where
  "CircularProgressBar_own_calls c =
     [Setter ''value'', Setter ''min_value'', Setter ''max_value'']
     @ (if c_max_value c = 0 then [Raise ValueError]
        else [Setter ''line_width'', Setter ''line_style'', Setter ''pie'', Connect ''draw''])"

definition CircularProgressBar_init_calls :: "Widget_args \<Rightarrow> CircularProgressBar_args \<Rightarrow> call list" where
  "CircularProgressBar_init_calls a c =
     then_calls (BaseInit ''Gtk.DrawingArea'' # Widget_init a) (CircularProgressBar_own_calls c)"

text \<open>The same constructor on the fields, after the base constructors.\<close>

definition CircularProgressBar_init ::
  "(string \<Rightarrow> LineCap option) \<Rightarrow> CircularProgressBar_args \<Rightarrow> py_error + CircularProgressBar" where
  "CircularProgressBar_init names c =
     (let p0 = \<lparr>cpb_value = 1, cpb_min_value = 0, cpb_max_value = 1, cpb_line_width = 4,
                cpb_line_style = ROUND, cpb_pie = False, cpb_queued_draws = 0\<rparr>;
          p1 = min_value_set (c_min_value c) (value_set (c_value c) p0)
      in case max_value_set (c_max_value c) p1 of
           Inl e \<Rightarrow> Inl e
         | Inr p2 \<Rightarrow>
             Inr (pie_set (c_pie c)
                   (line_style_set names (c_line_style c) (line_width_set (c_line_width c) p2))))"

section \<open>WaylandWindow (fabric/widgets/wayland.py)\<close>

datatype Layer = LAYER_BACKGROUND | LAYER_BOTTOM | LAYER_TOP | LAYER_OVERLAY | LAYER_ENTRY_NUMBER

datatype WaylandWindowExclusivity = NONE | NORMAL | AUTO

datatype Edge = EDGE_LEFT | EDGE_RIGHT | EDGE_TOP | EDGE_BOTTOM

text \<open>
  The window's own fields and, under \<open>ww_shell_\<close>, what the layer-shell library holds for
  the window: its layer, the margin of each edge and the exclusive zone.
\<close>

record WaylandWindow =
  ww_layer :: Layer
  ww_exclusivity :: WaylandWindowExclusivity
  ww_pass_through :: bool
  ww_shell_layer :: Layer
  ww_shell_margin :: "Edge \<Rightarrow> int"
  ww_shell_exclusive_zone :: int
  ww_shell_auto_exclusive_zone :: bool
  ww_empty_input_region :: bool

definition layer_get :: "WaylandWindow \<Rightarrow> Layer" where
  "layer_get w = ww_layer w"

definition layer_set :: "(string \<Rightarrow> Layer option) \<Rightarrow> Layer enum_arg \<Rightarrow> WaylandWindow \<Rightarrow> WaylandWindow" where
  "layer_set names v w =
     (let w1 = w\<lparr>ww_layer := get_enum_member names v LAYER_TOP\<rparr>
      in w1\<lparr>ww_shell_layer := ww_layer w1\<rparr>)"

definition set_exclusive_zone :: "int \<Rightarrow> WaylandWindow \<Rightarrow> WaylandWindow" where
  "set_exclusive_zone z w = w\<lparr>ww_shell_exclusive_zone := z, ww_shell_auto_exclusive_zone := False\<rparr>"

definition auto_exclusive_zone_enable :: "WaylandWindow \<Rightarrow> WaylandWindow" where
  "auto_exclusive_zone_enable w = w\<lparr>ww_shell_auto_exclusive_zone := True\<rparr>"

definition exclusivity_get :: "WaylandWindow \<Rightarrow> WaylandWindowExclusivity" where
  "exclusivity_get w = ww_exclusivity w"

definition exclusivity_set ::
  "(string \<Rightarrow> WaylandWindowExclusivity option) \<Rightarrow> WaylandWindowExclusivity enum_arg \<Rightarrow>
   WaylandWindow \<Rightarrow> WaylandWindow" where
  "exclusivity_set names v w =
     (let e = get_enum_member names v NONE;
          w1 = w\<lparr>ww_exclusivity := e\<rparr>
      in case e of
           NORMAL \<Rightarrow> set_exclusive_zone 1 w1
         | AUTO \<Rightarrow> auto_exclusive_zone_enable w1
         | NONE \<Rightarrow> set_exclusive_zone 0 w1)"

definition pass_through_get :: "WaylandWindow \<Rightarrow> bool" where
  "pass_through_get w = ww_pass_through w"

definition pass_through_set :: "bool \<Rightarrow> WaylandWindow \<Rightarrow> WaylandWindow" where
  "pass_through_set v w = w\<lparr>ww_pass_through := v, ww_empty_input_region := v\<rparr>"

text \<open>
  What may be assigned to \<open>margin\<close>: a string, a tuple, a list, or another iterable of
  integers. \<open>extract_css_values\<close> of \<open>fabric.utils.helpers\<close> is not among the sources:
  \<open>css\<close> is the sequence it returns for a string.
\<close>

datatype margin_arg = MarginStr string | MarginTuple "int list" | MarginList "int list" | MarginIter "int list"

definition lower_char :: "char \<Rightarrow> char" where
  "lower_char c =
     (let n = (of_char c :: nat) in if 65 \<le> n \<and> n \<le> 90 then char_of (n + 32) else c)"

definition lower :: "string \<Rightarrow> string" where
  "lower s = map lower_char s"

definition extract_margin :: "(string \<Rightarrow> int list) \<Rightarrow> margin_arg \<Rightarrow> py_error + (Edge \<times> int) list" where
  "extract_margin css input =
     (let margins =
            (case input of
               MarginStr s \<Rightarrow> css (lower s)
             | MarginTuple xs \<Rightarrow> if length xs = 4 then xs else [0, 0, 0, 0]
             | MarginList xs \<Rightarrow> if length xs = 4 then xs else [0, 0, 0, 0]
             | MarginIter xs \<Rightarrow> [0, 0, 0, 0])
      in case py_index margins 0 of Inl e \<Rightarrow> Inl e | Inr m0 \<Rightarrow>
         (case py_index margins 1 of Inl e \<Rightarrow> Inl e | Inr m1 \<Rightarrow>
         (case py_index margins 2 of Inl e \<Rightarrow> Inl e | Inr m2 \<Rightarrow>
         (case py_index margins 3 of Inl e \<Rightarrow> Inl e | Inr m3 \<Rightarrow>
            Inr [(EDGE_TOP, m0), (EDGE_RIGHT, m1), (EDGE_BOTTOM, m2), (EDGE_LEFT, m3)]))))"

definition set_margin :: "Edge \<times> int \<Rightarrow> WaylandWindow \<Rightarrow> WaylandWindow" where
  "set_margin em w = w\<lparr>ww_shell_margin := (ww_shell_margin w)(fst em := snd em)\<rparr>"

definition margin_get :: "WaylandWindow \<Rightarrow> int list" where
  "margin_get w = map (ww_shell_margin w) [EDGE_TOP, EDGE_RIGHT, EDGE_BOTTOM, EDGE_LEFT]"

definition margin_set :: "(string \<Rightarrow> int list) \<Rightarrow> margin_arg \<Rightarrow> WaylandWindow \<Rightarrow> py_error + WaylandWindow" where
  "margin_set css v w =
     (case extract_margin css v of
        Inl e \<Rightarrow> Inl e
      | Inr items \<Rightarrow> Inr (fold set_margin items w))"

text \<open>
  \<open>Window.__init__\<close> (fabric/widgets/window.py) and \<open>WaylandWindow.__init__\<close>.
  \<open>show\<close> and \<open>show_all\<close> are overridden: each runs \<open>do_handle_post_show_request\<close>,
  which assigns \<open>pass_through\<close> again.
\<close>

definition Window_init :: "call list \<Rightarrow> size_arg option \<Rightarrow> call list" where
  "Window_init container sz =
     then_calls (BaseInit ''Gtk.Window'' # container) (size_call ''set_default_size'' sz)"

record WaylandWindow_args =
  w_margin :: margin_arg
  w_monitor :: "int option"
  w_visible :: bool
  w_all_visible :: bool

definition post_show :: "bool \<Rightarrow> bool \<Rightarrow> call list" where
  "post_show all_visible visible =
     (if all_visible then [Native ''show_all'', Setter ''pass_through'']
      else if visible then [Native ''show'', Setter ''pass_through'']
      else [])"

definition WaylandWindow_own_calls :: "(string \<Rightarrow> int list) \<Rightarrow> WaylandWindow_args \<Rightarrow> call list" where
  "WaylandWindow_own_calls css a =
     [Native ''GtkLayerShell.init_for_window'', Native ''GtkLayerShell.set_namespace'',
      Connect ''notify::title'']
     @ (if w_monitor a \<noteq> None then [Setter ''monitor''] else [])
     @ [Setter ''layer'', Setter ''anchor'', Setter ''margin'']
     @ (case extract_margin css (w_margin a) of
          Inl e \<Rightarrow> [Raise e]
        | Inr items \<Rightarrow>
            [Setter ''keyboard_mode'', Setter ''exclusivity'', Setter ''pass_through'']
            @ post_show (w_all_visible a) (w_visible a))"

definition WaylandWindow_init_calls ::
  "(string \<Rightarrow> int list) \<Rightarrow> call list \<Rightarrow> size_arg option \<Rightarrow> WaylandWindow_args \<Rightarrow> call list" where
  "WaylandWindow_init_calls css container sz a =
     then_calls (Window_init container sz) (WaylandWindow_own_calls css a)"

section \<open>Compositor events (fabric/hyprland/widgets.py)\<close>

text \<open>
  An event of the compositor carries its name, its data fields and the raw line.
  Log entries keep the fixed text of a message, followed by the data it quotes.
\<close>

record HyprlandEvent =
  ev_name :: string
  ev_data :: "string list"
  ev_raw_data :: string

subsection \<open>Workspaces\<close>

text \<open>
  Buttons are objects shared between the dictionary \<open>_buttons\<close>, the list of preset
  buttons and the container's children, so they live in a store (\<open>ws_heap\<close>) and are
  referred to by address. \<open>ws_next\<close> is the address the next button the factory bakes
  gets. \<open>ws_clicked\<close> lists the buttons whose \<open>clicked\<close> signal has been connected.
\<close>

record Workspaces =
  ws_active_workspace :: "int option"
  ws_buttons :: "(int \<times> nat) list"
  ws_buttons_preset :: "nat list"
  ws_buttons_factory :: "(int \<Rightarrow> WorkspaceButton option) option"
  ws_children :: "nat list"
  ws_clicked :: "nat list"
  ws_heap :: "nat \<Rightarrow> WorkspaceButton"
  ws_next :: nat
  ws_log :: "log_entry list"

definition update_button :: "nat \<Rightarrow> (WorkspaceButton \<Rightarrow> WorkspaceButton) \<Rightarrow> Workspaces \<Rightarrow> Workspaces" where
  "update_button r f s = s\<lparr>ws_heap := (ws_heap s)(r := f (ws_heap s r))\<rparr>"










text \<open>
  \<open>on_urgent\<close> asks the compositor for its clients: \<open>client_workspace\<close> gives, for a
  client address, the id of the workspace the reply names for it (\<open>None\<close> for an unknown
  client or one without a workspace).
\<close>

definition on_urgent :: "(string \<Rightarrow> int option) \<Rightarrow> Workspaces \<Rightarrow> HyprlandEvent \<Rightarrow> Workspaces" where
  "on_urgent client_workspace s event =
     (if length (ev_data event) < 1 then s
      else case client_workspace (''0x'' @ ev_data event ! 0) of
             None \<Rightarrow>
               s\<lparr>ws_log := ws_log s @
                   [Warning (''[Workspaces] received urgent signal, but data received is uncorrect, skipping... ''
                             @ ev_data event ! 0)]\<rparr>
           | Some urgent_workspace \<Rightarrow>
               (case map_of (ws_buttons s) urgent_workspace of
                  None \<Rightarrow> s
                | Some btn \<Rightarrow>
                    (update_button btn (urgent_set True) s)
                      \<lparr>ws_log := ws_log s @ [Info ''[Workspaces] workspace is now urgent'']\<rparr>))"

subsection \<open>ActiveWindow\<close>



subsection \<open>Language\<close>



section \<open>Style classes\<close>

lemma split_urgent: "py_split ''urgent'' = [''urgent'']"
  by (simp add: py_split_def is_space_def)

lemma split_active: "py_split ''active'' = [''active'']"
  by (simp add: py_split_def is_space_def)

lemma split_empty: "py_split ''empty'' = [''empty'']"
  by (simp add: py_split_def is_space_def)

lemma add_style_urgent: "add_style_class ''urgent'' ks = add_class ''urgent'' ks"
  by (simp add: add_style_class_def split_urgent)

lemma remove_style_urgent: "remove_style_class ''urgent'' ks = remove_class ''urgent'' ks"
  by (simp add: remove_style_class_def split_urgent)

lemma add_style_active: "add_style_class ''active'' ks = add_class ''active'' ks"
  by (simp add: add_style_class_def split_active)

lemma remove_style_active: "remove_style_class ''active'' ks = remove_class ''active'' ks"
  by (simp add: remove_style_class_def split_active)

lemma add_style_empty: "add_style_class ''empty'' ks = add_class ''empty'' ks"
  by (simp add: add_style_class_def split_empty)

lemma remove_style_empty: "remove_style_class ''empty'' ks = remove_class ''empty'' ks"
  by (simp add: remove_style_class_def split_empty)

lemma add_class_idem: "add_class k (add_class k ks) = add_class k ks"
  by (simp add: add_class_def)

lemma remove_class_idem: "remove_class k (remove_class k ks) = remove_class k ks"
  by (simp add: remove_class_def)

lemma remove_add_commute:
  "k \<noteq> j \<Longrightarrow> remove_class k (add_class j ks) = add_class j (remove_class k ks)"
  by (simp add: remove_class_def add_class_def)

section \<open>WorkspaceButton: the flags\<close>

text \<open>What each setter leaves in each field of the button.\<close>

lemma urgent_set_fields:
  "wb_id (urgent_set v b) = wb_id b"
  "wb_label (urgent_set v b) = wb_label b"
  "wb_active (urgent_set v b) = wb_active b"
  "wb_urgent (urgent_set v b) = v"
  "wb_empty (urgent_set v b) = wb_empty b"
  "wb_style_classes (urgent_set v b) =
     (if v then add_class ''urgent'' (wb_style_classes b)
      else remove_class ''urgent'' (wb_style_classes b))"
  "wb_gtk_label (urgent_set v b) =
     (case wb_label b of
        None \<Rightarrow> wb_gtk_label b
      | Some f \<Rightarrow> Some (f (wb_id b) (wb_active b) v (wb_empty b)))"
  by (simp_all add: urgent_set_def toggle_style_class_def do_bake_label_def
      add_style_urgent remove_style_urgent split: option.splits)

lemma active_set_fields:
  "wb_id (active_set v b) = wb_id b"
  "wb_label (active_set v b) = wb_label b"
  "wb_active (active_set v b) = v"
  "wb_urgent (active_set v b) = (if v then False else wb_urgent b)"
  "wb_empty (active_set v b) = wb_empty b"
  "wb_style_classes (active_set v b) =
     (if v then add_class ''active'' (remove_class ''urgent'' (wb_style_classes b))
      else remove_class ''active'' (wb_style_classes b))"
  "wb_gtk_label (active_set v b) =
     (case wb_label b of
        None \<Rightarrow> wb_gtk_label b
      | Some f \<Rightarrow> Some (f (wb_id b) v (if v then False else wb_urgent b) (wb_empty b)))"
  by (simp_all add: active_set_def Let_def toggle_style_class_def do_bake_label_def
      urgent_set_fields add_style_active remove_style_active split: option.splits)

lemma empty_set_fields:
  "wb_id (empty_set v b) = wb_id b"
  "wb_label (empty_set v b) = wb_label b"
  "wb_active (empty_set v b) = wb_active b"
  "wb_urgent (empty_set v b) = wb_urgent b"
  "wb_empty (empty_set v b) = v"
  by (simp_all add: empty_set_def toggle_style_class_def do_bake_label_def split: option.splits)

lemma WorkspaceButton_eqI:
  fixes a b :: WorkspaceButton
  assumes "wb_id a = wb_id b" and "wb_label a = wb_label b" and "wb_active a = wb_active b"
    and "wb_urgent a = wb_urgent b" and "wb_empty a = wb_empty b"
    and "wb_style_classes a = wb_style_classes b" and "wb_gtk_label a = wb_gtk_label b"
  shows "a = b"
  using assms by simp

lemma urgent_set_idem: "urgent_set v (urgent_set v b) = urgent_set v b"
  by (rule WorkspaceButton_eqI)
     (simp_all add: urgent_set_fields add_class_idem remove_class_idem split: option.splits)

lemma active_set_idem: "active_set v (active_set v b) = active_set v b"
  by (rule WorkspaceButton_eqI)
     (simp_all add: active_set_fields add_class_idem remove_class_idem remove_add_commute
        split: option.splits)

text \<open>
  C1 (as the code has it). Assigning \<open>True\<close> to \<open>active\<close> leaves \<open>active\<close> true and
  \<open>urgent\<close> false. Assigning any value to \<open>urgent\<close> stores it and leaves \<open>active\<close> as it
  was: the clearing goes one way only. Assigning the same value twice to either property
  leaves the button (fields, style classes and label) as assigning it once does.
\<close>

theorem C1_active_clears_urgent:
  "wb_active (active_set True b) \<and> \<not> wb_urgent (active_set True b)
   \<and> wb_urgent (urgent_set v b) = v \<and> wb_active (urgent_set v b) = wb_active b
   \<and> active_set v (active_set v b) = active_set v b
   \<and> urgent_set v (urgent_set v b) = urgent_set v b"
  by (simp add: active_set_fields urgent_set_fields active_set_idem urgent_set_idem)

text \<open>
  C1 as stated fails: on a button made active, assigning \<open>True\<close> to \<open>urgent\<close> does not
  force \<open>active\<close> to false; both flags are then true.
\<close>

theorem C1_urgent_keeps_active_counterexample:
  "wb_active (urgent_set True (active_set True (WorkspaceButton_init 1 None [])))
   \<and> wb_urgent (urgent_set True (active_set True (WorkspaceButton_init 1 None [])))"
  by (simp add: active_set_fields urgent_set_fields)

section \<open>CircularProgressBar: the numeric setters\<close>





lemma max_value_set_cases:
  "(case max_value_set v p of
      Inl e \<Rightarrow> e = ValueError \<and> v = 0
    | Inr p' \<Rightarrow> v \<noteq> 0 \<and> max_value_get p' = v)"
  by (simp add: max_value_set_def max_value_get_def queue_draw_def)

lemma max_value_raises_iff: "(max_value_set v p = Inl ValueError) = (v = 0)"
  by (simp add: max_value_set_def)

section \<open>DateTime: the formatters\<close>

lemma formatters_set_empty_list:
  "dt_formatters (formatters_set (FList []) d) = default_formatters"
  "dt_log (formatters_set (FList []) d) = dt_log d @
     [Warning ''[DateTime] passed in invalid list of formatters, using default formatters list'']"
  by (simp_all add: formatters_set_def Let_def)

lemma formatters_set_empty_tuple:
  "dt_formatters (formatters_set (FTuple []) d) = default_formatters"
  "dt_log (formatters_set (FTuple []) d) = dt_log d @
     [Warning ''[DateTime] passed in invalid list of formatters, using default formatters list'']"
  by (simp_all add: formatters_set_def Let_def)


lemma formatters_set_keeps_index: "dt_current_index (formatters_set v d) = dt_current_index d"
  by (cases v) (simp_all add: formatters_set_def Let_def)

text \<open>
  C2 (as the code has it). The \<open>formatters\<close> setter of \<open>DateTime\<close> returns for every
  input: an empty list or tuple is replaced by the default three formats and a warning is
  logged. The \<open>max_value\<close> setter of \<open>CircularProgressBar\<close> raises \<open>ValueError\<close> exactly
  for the value 0, and stores every other value as it is given.
\<close>

theorem C2_formatters_default_max_value_raises:
  "dt_formatters (formatters_set (FList []) d) = default_formatters
   \<and> dt_log (formatters_set (FList []) d) = dt_log d @
       [Warning ''[DateTime] passed in invalid list of formatters, using default formatters list'']
   \<and> dt_formatters (formatters_set (FTuple []) d) = default_formatters
   \<and> dt_log (formatters_set (FTuple []) d) = dt_log d @
       [Warning ''[DateTime] passed in invalid list of formatters, using default formatters list'']
   \<and> (max_value_set v p = Inl ValueError) = (v = 0)
   \<and> (case max_value_set v p of
         Inl e \<Rightarrow> e = ValueError \<and> v = 0
       | Inr p' \<Rightarrow> v \<noteq> 0 \<and> max_value_get p' = v)"
  by (simp only: formatters_set_empty_list formatters_set_empty_tuple max_value_raises_iff
      max_value_set_cases simp_thms)

text \<open>
  C2 as stated fails: assigning 0 to \<open>max_value\<close> of a fresh progress bar raises
  \<open>ValueError\<close> to the caller.
\<close>

theorem C2_max_value_zero_counterexample:
  "max_value_set 0
     \<lparr>cpb_value = 1, cpb_min_value = 0, cpb_max_value = 1, cpb_line_width = 4,
      cpb_line_style = ROUND, cpb_pie = False, cpb_queued_draws = 0\<rparr>
   = Inl ValueError"
  by (simp add: max_value_set_def)

section \<open>AudioStream: the volume\<close>







section \<open>WaylandWindow: the margin\<close>

lemma extract_margin_wrong_length:
  "length xs \<noteq> 4 \<Longrightarrow> extract_margin css (MarginTuple xs)
     = Inr [(EDGE_TOP, 0), (EDGE_RIGHT, 0), (EDGE_BOTTOM, 0), (EDGE_LEFT, 0)]"
  "length xs \<noteq> 4 \<Longrightarrow> extract_margin css (MarginList xs)
     = Inr [(EDGE_TOP, 0), (EDGE_RIGHT, 0), (EDGE_BOTTOM, 0), (EDGE_LEFT, 0)]"
  "extract_margin css (MarginIter ys)
     = Inr [(EDGE_TOP, 0), (EDGE_RIGHT, 0), (EDGE_BOTTOM, 0), (EDGE_LEFT, 0)]"
  by (simp_all add: extract_margin_def py_index_def)

lemma extract_margin_four:
  "extract_margin css (MarginTuple [m0, m1, m2, m3])
     = Inr [(EDGE_TOP, m0), (EDGE_RIGHT, m1), (EDGE_BOTTOM, m2), (EDGE_LEFT, m3)]"
  by (simp add: extract_margin_def py_index_def)

lemma margin_get_after_set:
  "margin_get (set_margin (EDGE_LEFT, m3) (set_margin (EDGE_BOTTOM, m2)
      (set_margin (EDGE_RIGHT, m1) (set_margin (EDGE_TOP, m0) w))))
   = [m0, m1, m2, m3]"
  by (simp add: margin_get_def set_margin_def)



lemma margin_wrong_length_zero:
  "length xs \<noteq> 4 \<Longrightarrow>
     map_sum id margin_get (margin_set css (MarginTuple xs) w) = Inr [0, 0, 0, 0]"
  "length xs \<noteq> 4 \<Longrightarrow>
     map_sum id margin_get (margin_set css (MarginList xs) w) = Inr [0, 0, 0, 0]"
  "map_sum id margin_get (margin_set css (MarginIter ys) w) = Inr [0, 0, 0, 0]"
  by (simp_all add: margin_set_def extract_margin_wrong_length margin_get_after_set)

text \<open>
  C10. Assigning to \<open>margin\<close> a tuple or list whose length is not 4, or any other
  non-string iterable, does not raise and leaves the margins of the four edges, read in
  the order top, right, bottom, left, at 0, whatever they were before.
\<close>

theorem C10_margin_wrong_length_zero:
  assumes "length xs \<noteq> 4"
  shows "map_sum id margin_get (margin_set css (MarginTuple xs) w) = Inr [0, 0, 0, 0]
         \<and> map_sum id margin_get (margin_set css (MarginList xs) w) = Inr [0, 0, 0, 0]
         \<and> map_sum id margin_get (margin_set css (MarginIter ys) w) = Inr [0, 0, 0, 0]"
  using assms by (simp add: margin_wrong_length_zero)

theorem C10_margin_wrong_length_zero_witness:
  "length [10, 20 :: int] \<noteq> 4
   \<and> margin_get \<lparr>ww_layer = LAYER_TOP, ww_exclusivity = NONE, ww_pass_through = False,
        ww_shell_layer = LAYER_TOP, ww_shell_margin = (\<lambda>e. 7), ww_shell_exclusive_zone = 0,
        ww_shell_auto_exclusive_zone = False, ww_empty_input_region = False\<rparr> = [7, 7, 7, 7]
   \<and> map_sum id margin_get (margin_set (\<lambda>s. []) (MarginList [10, 20])
        \<lparr>ww_layer = LAYER_TOP, ww_exclusivity = NONE, ww_pass_through = False,
         ww_shell_layer = LAYER_TOP, ww_shell_margin = (\<lambda>e. 7), ww_shell_exclusive_zone = 0,
         ww_shell_auto_exclusive_zone = False, ww_empty_input_region = False\<rparr>)
      = Inr [0, 0, 0, 0]"
  using C10_margin_wrong_length_zero[of "[10, 20]" "\<lambda>s. []"
      "\<lparr>ww_layer = LAYER_TOP, ww_exclusivity = NONE, ww_pass_through = False,
        ww_shell_layer = LAYER_TOP, ww_shell_margin = (\<lambda>e. 7), ww_shell_exclusive_zone = 0,
        ww_shell_auto_exclusive_zone = False, ww_empty_input_region = False\<rparr>"]
  by (simp add: margin_get_def)

section \<open>Setting a property and reading it back\<close>




section \<open>Enum-like properties\<close>

lemma get_enum_member_unknown: "names s = None \<Longrightarrow> get_enum_member names (Name s) dflt = dflt"
  by (simp add: get_enum_member_def)

lemma line_style_unknown:
  "names s = None \<Longrightarrow> line_style_get (line_style_set names (Name s) p) = BUTT"
  by (simp add: line_style_get_def line_style_set_def queue_draw_def get_enum_member_unknown)

lemma layer_unknown:
  "names s = None \<Longrightarrow> layer_get (layer_set names (Name s) w) = LAYER_TOP"
  "names s = None \<Longrightarrow> ww_shell_layer (layer_set names (Name s) w) = LAYER_TOP"
  by (simp_all add: layer_get_def layer_set_def Let_def get_enum_member_unknown)

lemma exclusivity_unknown:
  "names s = None \<Longrightarrow> exclusivity_get (exclusivity_set names (Name s) w) = NONE"
  "names s = None \<Longrightarrow> ww_shell_exclusive_zone (exclusivity_set names (Name s) w) = 0"
  by (simp_all add: exclusivity_get_def exclusivity_set_def Let_def set_exclusive_zone_def
      get_enum_member_unknown)

text \<open>
  C8. A string that names no member of the enum, assigned to \<open>line_style\<close>, \<open>layer\<close> or
  \<open>exclusivity\<close>, stores the default member: \<open>cairo.LineCap.BUTT\<close>, the top layer (also
  handed to the layer shell) and \<open>WaylandWindowExclusivity.NONE\<close> (with no exclusive zone).
  The setters return; none raises.
\<close>

theorem C8_unknown_name_stores_default:
  assumes "caps s = None" and "layers s = None" and "modes s = None"
  shows "line_style_get (line_style_set caps (Name s) p) = BUTT
         \<and> layer_get (layer_set layers (Name s) w) = LAYER_TOP
         \<and> ww_shell_layer (layer_set layers (Name s) w) = LAYER_TOP
         \<and> exclusivity_get (exclusivity_set modes (Name s) w) = NONE
         \<and> ww_shell_exclusive_zone (exclusivity_set modes (Name s) w) = 0"
  using assms by (simp add: line_style_unknown layer_unknown exclusivity_unknown)

theorem C8_unknown_name_stores_default_witness:
  "map_of [(''butt'', BUTT), (''round'', ROUND), (''square'', SQUARE)] ''sideways'' = None
   \<and> map_of [(''background'', LAYER_BACKGROUND), (''bottom'', LAYER_BOTTOM),
              (''top'', LAYER_TOP), (''overlay'', LAYER_OVERLAY)] ''sideways'' = None
   \<and> map_of [(''none'', NONE), (''normal'', NORMAL), (''auto'', AUTO)] ''sideways'' = None
   \<and> line_style_get (line_style_set
        (map_of [(''butt'', BUTT), (''round'', ROUND), (''square'', SQUARE)]) (Name ''sideways'')
        \<lparr>cpb_value = 1, cpb_min_value = 0, cpb_max_value = 1, cpb_line_width = 4,
         cpb_line_style = ROUND, cpb_pie = False, cpb_queued_draws = 0\<rparr>) = BUTT
   \<and> layer_get (layer_set
        (map_of [(''background'', LAYER_BACKGROUND), (''bottom'', LAYER_BOTTOM),
                 (''top'', LAYER_TOP), (''overlay'', LAYER_OVERLAY)]) (Name ''sideways'')
        \<lparr>ww_layer = LAYER_ENTRY_NUMBER, ww_exclusivity = AUTO, ww_pass_through = False,
         ww_shell_layer = LAYER_BOTTOM, ww_shell_margin = (\<lambda>e. 0), ww_shell_exclusive_zone = 1,
         ww_shell_auto_exclusive_zone = True, ww_empty_input_region = False\<rparr>) = LAYER_TOP
   \<and> exclusivity_get (exclusivity_set (map_of [(''none'', NONE), (''normal'', NORMAL), (''auto'', AUTO)])
        (Name ''sideways'')
        \<lparr>ww_layer = LAYER_ENTRY_NUMBER, ww_exclusivity = AUTO, ww_pass_through = False,
         ww_shell_layer = LAYER_BOTTOM, ww_shell_margin = (\<lambda>e. 0), ww_shell_exclusive_zone = 1,
         ww_shell_auto_exclusive_zone = True, ww_empty_input_region = False\<rparr>) = NONE"
  using C8_unknown_name_stores_default[of
      "map_of [(''butt'', BUTT), (''round'', ROUND), (''square'', SQUARE)]" "''sideways''"
      "map_of [(''background'', LAYER_BACKGROUND), (''bottom'', LAYER_BOTTOM),
               (''top'', LAYER_TOP), (''overlay'', LAYER_OVERLAY)]"
      "map_of [(''none'', NONE), (''normal'', NORMAL), (''auto'', AUTO)]"
      "\<lparr>cpb_value = 1, cpb_min_value = 0, cpb_max_value = 1, cpb_line_width = 4,
        cpb_line_style = ROUND, cpb_pie = False, cpb_queued_draws = 0\<rparr>"
      "\<lparr>ww_layer = LAYER_ENTRY_NUMBER, ww_exclusivity = AUTO, ww_pass_through = False,
        ww_shell_layer = LAYER_BOTTOM, ww_shell_margin = (\<lambda>e. 0), ww_shell_exclusive_zone = 1,
        ww_shell_auto_exclusive_zone = True, ww_empty_input_region = False\<rparr>"]
  by simp

section \<open>DateTime: the format index\<close>

lemma formatters_set_nonempty: "formatters_get (formatters_set v d) \<noteq> []"
  by (cases v) (auto simp add: formatters_get_def formatters_set_def Let_def default_formatters_def)

lemma do_update_label_in_range:
  assumes "0 \<le> dt_current_index d" and "dt_current_index d < int (length (dt_formatters d))"
  shows "do_update_label strftime d
         = Inr (d\<lparr>dt_gtk_label := Some (strftime (dt_formatters d ! nat (dt_current_index d)))\<rparr>)"
  using assms by (simp add: do_update_label_def do_format_def py_index_def)

lemma do_cycle_next_in_range:
  assumes "dt_formatters d \<noteq> []"
  shows "\<exists>d'. do_cycle_next strftime d = Inr d' \<and> dt_formatters d' = dt_formatters d
           \<and> 0 \<le> dt_current_index d' \<and> dt_current_index d' < int (length (dt_formatters d'))"
proof (cases "do_check_invalid_index (d\<lparr>dt_current_index := dt_current_index d + 1\<rparr>)
                (dt_current_index d + 1)")
  case True
  let ?d2 = "d\<lparr>dt_current_index := 0\<rparr>"
  have "do_cycle_next strftime d = do_update_label strftime ?d2"
    using True by (simp add: do_cycle_next_def Let_def)
  moreover have "0 < int (length (dt_formatters ?d2))" using assms by simp
  ultimately show ?thesis
    by (simp add: do_update_label_in_range)
next
  case False
  let ?d2 = "d\<lparr>dt_current_index := dt_current_index d + 1\<rparr>"
  have eq: "do_cycle_next strftime d = do_update_label strftime ?d2"
    using False by (simp add: do_cycle_next_def Let_def)
  have "0 \<le> dt_current_index ?d2" "dt_current_index ?d2 < int (length (dt_formatters ?d2))"
    using False by (simp_all add: do_check_invalid_index_def formatters_get_def)
  then show ?thesis
    unfolding eq by (simp add: do_update_label_in_range)
qed

lemma do_cycle_prev_in_range:
  assumes "dt_formatters d \<noteq> []"
  shows "\<exists>d'. do_cycle_prev strftime d = Inr d' \<and> dt_formatters d' = dt_formatters d
           \<and> 0 \<le> dt_current_index d' \<and> dt_current_index d' < int (length (dt_formatters d'))"
proof (cases "do_check_invalid_index (d\<lparr>dt_current_index := dt_current_index d - 1\<rparr>)
                (dt_current_index d - 1)")
  case True
  let ?d2 = "d\<lparr>dt_current_index := int (length (dt_formatters d)) - 1\<rparr>"
  have eq: "do_cycle_prev strftime d = do_update_label strftime ?d2"
    using True by (simp add: do_cycle_prev_def Let_def formatters_get_def)
  have "0 \<le> dt_current_index ?d2" "dt_current_index ?d2 < int (length (dt_formatters ?d2))"
    using assms by (simp_all add: Suc_leI)
  then show ?thesis
    unfolding eq by (simp add: do_update_label_in_range)
next
  case False
  let ?d2 = "d\<lparr>dt_current_index := dt_current_index d - 1\<rparr>"
  have eq: "do_cycle_prev strftime d = do_update_label strftime ?d2"
    using False by (simp add: do_cycle_prev_def Let_def)
  have "0 \<le> dt_current_index ?d2" "dt_current_index ?d2 < int (length (dt_formatters ?d2))"
    using False by (simp_all add: do_check_invalid_index_def formatters_get_def)
  then show ?thesis
    unfolding eq by (simp add: do_update_label_in_range)
qed

text \<open>
  C9, where the code leaves it. A widget built with three formatters and cycled forward
  twice has index 2. Assigning a tuple of one formatter keeps that index, and the next
  \<open>do_format\<close> (the repeater's tick) indexes the tuple out of bounds.
\<close>

theorem C9_shrinking_formatters_stale_index:
  "bind_err (DateTime_init id 1 (FTuple [''%H'', ''%M'', ''%S'']) 1000) (\<lambda>d0.
   bind_err (do_cycle_next id d0) (\<lambda>d1.
   bind_err (do_cycle_next id d1) (\<lambda>d2.
     Inr (dt_current_index d2,
          formatters_get (formatters_set (FTuple [''%Y'']) d2),
          do_format id (formatters_set (FTuple [''%Y'']) d2)))))
   = Inr (2, [''%Y''], Inl IndexError)"
  by (simp add: bind_err_def DateTime_init_def interval_set_def formatters_set_def
      formatters_get_def do_cycle_next_def do_update_label_def do_format_def py_index_def
      do_check_invalid_index_def Let_def)

section \<open>Compositor events with too few data fields\<close>









section \<open>Which calls a constructor makes\<close>

lemma raised_append: "raised (xs @ ys) = (raised xs \<or> raised ys)"
  by (induction xs rule: raised.induct) simp_all

lemma raised_iff: "raised xs = (\<exists>e. Raise e \<in> set xs)"
  by (induction xs rule: raised.induct) auto

lemma set_then_calls: "set (then_calls xs ys) = (if raised xs then set xs else set xs \<union> set ys)"
  by (simp add: then_calls_def)

lemma then_calls_not_raised: "\<not> raised xs \<Longrightarrow> then_calls xs ys = xs @ ys"
  by (simp add: then_calls_def)

lemma then_calls_Nil: "then_calls xs [] = xs"
  by (simp add: then_calls_def)

lemma mem_optional_call: "(x \<in> set (if c then [y] else [])) = (c \<and> x = y)"
  by auto

lemma raised_optional_call: "raised (if c then [Native f] else []) = False"
  "raised (if c then [Setter f] else []) = False"
  by simp_all

lemma raised_size_call:
  "raised (size_call f v) = (case v of Some (SizeSeq xs) \<Rightarrow> length xs \<noteq> 2 | _ \<Rightarrow> False)"
  by (simp add: size_call_def split: option.splits size_arg.splits)

lemma mem_size_call: "(Native g \<in> set (size_call f v)) = (g = f \<and> v \<noteq> None)"
proof (cases v)
  case None
  then show ?thesis by (simp add: size_call_def)
next
  case (Some z)
  then show ?thesis by (cases z) (auto simp add: size_call_def)
qed

lemma setter_not_in_size_call: "Setter n \<notin> set (size_call f v)"
proof (cases v)
  case None
  then show ?thesis by (simp add: size_call_def)
next
  case (Some z)
  then show ?thesis by (cases z) (auto simp add: size_call_def)
qed

lemma mem_show_calls:
  "(Native g \<in> set (show_calls av v)) = (if av then g = ''show_all'' else v \<and> g = ''show'')"
  by (auto simp add: show_calls_def)

lemma setter_not_in_show_calls: "Setter n \<notin> set (show_calls av v)"
  by (simp add: show_calls_def)

text \<open>The calls of \<open>Widget.__init__\<close> before and after the size request, as sets.\<close>

lemma Widget_init_set:
  "set (Widget_init a) =
     {BaseInit ''Gtk.Widget'', BaseInit ''Service'', Setter ''v_expand'', Setter ''h_expand''}
     \<union> (if a_name a \<noteq> None then {Native ''set_name''} else {})
     \<union> (if a_tooltip_text a \<noteq> None then {Native ''set_tooltip_text''} else {})
     \<union> (if a_tooltip_markup a \<noteq> None then {Native ''set_tooltip_markup''} else {})
     \<union> (if truthy_align (a_v_align a) then {Setter ''v_align''} else {})
     \<union> (if truthy_align (a_h_align a) then {Setter ''h_align''} else {})
     \<union> set (size_call ''set_size_request'' (a_size a))
     \<union> (if raised (size_call ''set_size_request'' (a_size a)) then {}
         else (if truthy_classes (a_style_classes a) then {Native ''add_style_class''} else {})
            \<union> (if truthy_str (a_style a) then {Native ''set_style''} else {})
            \<union> set (show_calls (a_all_visible a) (a_visible a)))"
  unfolding Widget_init_def set_then_calls raised_append
  by (simp only: raised.simps raised_optional_call set_append set_simps simp_thms if_False)
     auto

text \<open>
  C5 (as the code has it). In \<open>Widget.__init__\<close>, \<open>set_name\<close>, \<open>set_tooltip_text\<close>,
  \<open>set_tooltip_markup\<close> and \<open>set_size_request\<close> are called exactly when their argument
  is not \<open>None\<close>; the \<open>v_align\<close> and \<open>h_align\<close> setters exactly when the argument is
  truthy, and \<open>add_style_class\<close> and \<open>set_style\<close> exactly when it is truthy and the size
  request did not raise; \<open>None\<close> is never truthy. The \<open>v_expand\<close> and \<open>h_expand\<close> setters
  are called for every argument, the default \<open>False\<close> included. \<open>EventBox.__init__\<close> with
  \<open>events\<close> absent makes the calls of its base constructors and no other.
\<close>

theorem C5_optional_arguments:
  "(Native ''set_name'' \<in> set (Widget_init a)) = (a_name a \<noteq> None)
   \<and> (Native ''set_tooltip_text'' \<in> set (Widget_init a)) = (a_tooltip_text a \<noteq> None)
   \<and> (Native ''set_tooltip_markup'' \<in> set (Widget_init a)) = (a_tooltip_markup a \<noteq> None)
   \<and> (Native ''set_size_request'' \<in> set (Widget_init a)) = (a_size a \<noteq> None)
   \<and> (Setter ''v_align'' \<in> set (Widget_init a)) = truthy_align (a_v_align a)
   \<and> (Setter ''h_align'' \<in> set (Widget_init a)) = truthy_align (a_h_align a)
   \<and> (Native ''add_style_class'' \<in> set (Widget_init a))
       = (truthy_classes (a_style_classes a) \<and> \<not> raised (size_call ''set_size_request'' (a_size a)))
   \<and> (Native ''set_style'' \<in> set (Widget_init a))
       = (truthy_str (a_style a) \<and> \<not> raised (size_call ''set_size_request'' (a_size a)))
   \<and> \<not> truthy_align None \<and> \<not> truthy_classes None \<and> \<not> truthy_str None
   \<and> Setter ''v_expand'' \<in> set (Widget_init a)
   \<and> Setter ''h_expand'' \<in> set (Widget_init a)
   \<and> EventBox_init container None = BaseInit ''Gtk.EventBox'' # container"
proof -
  have 1: "(Native ''set_name'' \<in> set (Widget_init a)) = (a_name a \<noteq> None)"
    by (simp add: Widget_init_set mem_size_call mem_show_calls)
  have 2: "(Native ''set_tooltip_text'' \<in> set (Widget_init a)) = (a_tooltip_text a \<noteq> None)"
    by (simp add: Widget_init_set mem_size_call mem_show_calls)
  have 3: "(Native ''set_tooltip_markup'' \<in> set (Widget_init a)) = (a_tooltip_markup a \<noteq> None)"
    by (simp add: Widget_init_set mem_size_call mem_show_calls)
  have 4: "(Native ''set_size_request'' \<in> set (Widget_init a)) = (a_size a \<noteq> None)"
    by (simp add: Widget_init_set mem_size_call mem_show_calls)
  have 5: "(Setter ''v_align'' \<in> set (Widget_init a)) = truthy_align (a_v_align a)"
    by (simp add: Widget_init_set setter_not_in_size_call setter_not_in_show_calls)
  have 6: "(Setter ''h_align'' \<in> set (Widget_init a)) = truthy_align (a_h_align a)"
    by (simp add: Widget_init_set setter_not_in_size_call setter_not_in_show_calls)
  have 7: "(Native ''add_style_class'' \<in> set (Widget_init a))
       = (truthy_classes (a_style_classes a) \<and> \<not> raised (size_call ''set_size_request'' (a_size a)))"
    by (simp add: Widget_init_set mem_size_call mem_show_calls)
  have 8: "(Native ''set_style'' \<in> set (Widget_init a))
       = (truthy_str (a_style a) \<and> \<not> raised (size_call ''set_size_request'' (a_size a)))"
    by (simp add: Widget_init_set mem_size_call mem_show_calls)
  have 9: "\<not> truthy_align None \<and> \<not> truthy_classes None \<and> \<not> truthy_str None"
    by (simp add: truthy_align_def truthy_classes_def truthy_str_def)
  have 10: "Setter ''v_expand'' \<in> set (Widget_init a)" "Setter ''h_expand'' \<in> set (Widget_init a)"
    by (simp_all add: Widget_init_set)
  have 11: "EventBox_init container None = BaseInit ''Gtk.EventBox'' # container"
    by (simp add: EventBox_init_def then_calls_Nil)
  from 1 2 3 4 5 6 7 8 9 10 11 show ?thesis by blast
qed

text \<open>
  C5 as stated fails: with every optional argument left out, \<open>Widget.__init__\<close> still
  runs the \<open>v_expand\<close> and \<open>h_expand\<close> setters, with the default \<open>False\<close>.
\<close>

theorem C5_expand_always_set_counterexample:
  "Widget_init
     \<lparr>a_name = None, a_visible = True, a_all_visible = False, a_style = None,
      a_style_classes = None, a_tooltip_text = None, a_tooltip_markup = None,
      a_h_align = None, a_v_align = None, a_h_expand = False, a_v_expand = False,
      a_size = None\<rparr>
   = [BaseInit ''Gtk.Widget'', BaseInit ''Service'', Setter ''v_expand'', Setter ''h_expand'',
      Native ''show'']"
  by (simp add: Widget_init_def then_calls_def size_call_def show_calls_def
      truthy_align_def truthy_classes_def truthy_str_def)

section \<open>The order of the calls\<close>

lemma CircularProgressBar_own_calls_nonzero:
  "c_max_value c \<noteq> 0 \<Longrightarrow>
     CircularProgressBar_own_calls c
     = [Setter ''value'', Setter ''min_value'', Setter ''max_value'', Setter ''line_width'',
        Setter ''line_style'', Setter ''pie'', Connect ''draw'']"
  by (simp add: CircularProgressBar_own_calls_def)

lemma Widget_init_no_progress_setter:
  "n \<in> set [''value'', ''min_value'', ''max_value'', ''line_width'', ''line_style'', ''pie'']
   \<Longrightarrow> count_list (Widget_init a) (Setter n) = 0"
  unfolding count_list_0_iff
  by (auto simp add: Widget_init_set setter_not_in_size_call setter_not_in_show_calls)

lemma CircularProgressBar_init_calls_ok:
  assumes "\<not> raised (Widget_init a)" and "c_max_value c \<noteq> 0"
  shows "CircularProgressBar_init_calls a c
         = BaseInit ''Gtk.DrawingArea'' # Widget_init a
           @ [Setter ''value'', Setter ''min_value'', Setter ''max_value'', Setter ''line_width'',
              Setter ''line_style'', Setter ''pie'', Connect ''draw'']"
  using assms
  by (simp add: CircularProgressBar_init_calls_def then_calls_def
      CircularProgressBar_own_calls_nonzero)

lemma CircularProgressBar_setters_once:
  assumes "\<not> raised (Widget_init a)" and "c_max_value c \<noteq> 0"
  shows "map (\<lambda>n. count_list (CircularProgressBar_init_calls a c) (Setter n))
           [''value'', ''min_value'', ''max_value'', ''line_width'', ''line_style'', ''pie'']
         = [1, 1, 1, 1, 1, 1]"
  unfolding CircularProgressBar_init_calls_ok[OF assms]
  by (simp add: Widget_init_no_progress_setter)

lemma post_show_pass_through:
  "count_list (post_show av v) (Setter ''pass_through'') = (if av \<or> v then 1 else 0)"
  by (simp add: post_show_def)

lemma WaylandWindow_own_calls_ok:
  assumes "extract_margin css (w_margin wa) = Inr items"
  shows "WaylandWindow_own_calls css wa
         = [Native ''GtkLayerShell.init_for_window'', Native ''GtkLayerShell.set_namespace'',
            Connect ''notify::title'']
           @ (if w_monitor wa \<noteq> None then [Setter ''monitor''] else [])
           @ [Setter ''layer'', Setter ''anchor'', Setter ''margin'', Setter ''keyboard_mode'',
              Setter ''exclusivity'', Setter ''pass_through'']
           @ post_show (w_all_visible wa) (w_visible wa)"
  using assms by (simp add: WaylandWindow_own_calls_def)

lemma WaylandWindow_pass_through_count:
  assumes "extract_margin css (w_margin wa) = Inr items"
  shows "count_list (WaylandWindow_own_calls css wa) (Setter ''pass_through'')
         = (if w_all_visible wa \<or> w_visible wa then 2 else 1)"
  unfolding WaylandWindow_own_calls_ok[OF assms]
  by (simp add: post_show_pass_through)

text \<open>
  C4 (as the code has it). When no call raises, \<open>CircularProgressBar.__init__\<close> runs the
  base constructors, then the setters of \<open>value\<close>, \<open>min_value\<close>, \<open>max_value\<close>,
  \<open>line_width\<close>, \<open>line_style\<close> and \<open>pie\<close>, each once and in the order the parameters are
  declared, whatever the arguments are, and connects the \<open>draw\<close> handler last.
  \<open>WaylandWindow.__init__\<close> runs the base constructor, connects the \<open>notify::title\<close>
  handler, and only then runs the setters, in the order \<open>monitor\<close> (when it is not
  \<open>None\<close>), \<open>layer\<close>, \<open>anchor\<close>, \<open>margin\<close>, \<open>keyboard_mode\<close>, \<open>exclusivity\<close>,
  \<open>pass_through\<close>; showing the window runs the \<open>pass_through\<close> setter a second time.
\<close>

theorem C4_constructor_call_order:
  assumes "\<not> raised (Widget_init a)" and "c_max_value c \<noteq> 0"
    and "\<not> raised (Window_init container sz)"
    and "extract_margin css (w_margin wa) = Inr items"
  shows "CircularProgressBar_init_calls a c
         = BaseInit ''Gtk.DrawingArea'' # Widget_init a
           @ [Setter ''value'', Setter ''min_value'', Setter ''max_value'', Setter ''line_width'',
              Setter ''line_style'', Setter ''pie'', Connect ''draw'']
         \<and> map (\<lambda>n. count_list (CircularProgressBar_init_calls a c) (Setter n))
               [''value'', ''min_value'', ''max_value'', ''line_width'', ''line_style'', ''pie'']
             = [1, 1, 1, 1, 1, 1]
         \<and> WaylandWindow_init_calls css container sz wa
             = Window_init container sz
               @ [Native ''GtkLayerShell.init_for_window'', Native ''GtkLayerShell.set_namespace'',
                  Connect ''notify::title'']
               @ (if w_monitor wa \<noteq> None then [Setter ''monitor''] else [])
               @ [Setter ''layer'', Setter ''anchor'', Setter ''margin'', Setter ''keyboard_mode'',
                  Setter ''exclusivity'', Setter ''pass_through'']
               @ post_show (w_all_visible wa) (w_visible wa)
         \<and> count_list (WaylandWindow_own_calls css wa) (Setter ''pass_through'')
             = (if w_all_visible wa \<or> w_visible wa then 2 else 1)"
proof -
  have "WaylandWindow_init_calls css container sz wa
        = Window_init container sz @ WaylandWindow_own_calls css wa"
    using assms(3) by (simp add: WaylandWindow_init_calls_def then_calls_not_raised)
  then show ?thesis
    by (simp only: CircularProgressBar_init_calls_ok[OF assms(1,2)]
        CircularProgressBar_setters_once[OF assms(1,2), unfolded
          CircularProgressBar_init_calls_ok[OF assms(1,2)]]
        WaylandWindow_own_calls_ok[OF assms(4)]
        WaylandWindow_pass_through_count[OF assms(4), unfolded WaylandWindow_own_calls_ok[OF assms(4)]]
        simp_thms)
qed

theorem C4_constructor_call_order_witness:
  "c_max_value \<lparr>c_value = 1, c_min_value = 0, c_max_value = 1, c_line_width = 4,
                 c_line_style = Member ROUND, c_pie = False\<rparr> \<noteq> 0
   \<and> CircularProgressBar_init_calls
        \<lparr>a_name = None, a_visible = True, a_all_visible = False, a_style = None,
         a_style_classes = None, a_tooltip_text = None, a_tooltip_markup = None,
         a_h_align = None, a_v_align = None, a_h_expand = False, a_v_expand = False,
         a_size = None\<rparr>
        \<lparr>c_value = 1, c_min_value = 0, c_max_value = 1, c_line_width = 4,
         c_line_style = Member ROUND, c_pie = False\<rparr>
      = [BaseInit ''Gtk.DrawingArea'', BaseInit ''Gtk.Widget'', BaseInit ''Service'',
         Setter ''v_expand'', Setter ''h_expand'', Native ''show'',
         Setter ''value'', Setter ''min_value'', Setter ''max_value'', Setter ''line_width'',
         Setter ''line_style'', Setter ''pie'', Connect ''draw'']
   \<and> count_list
        (WaylandWindow_own_calls (\<lambda>s. [])
           \<lparr>w_margin = MarginTuple [0, 0, 0, 0], w_monitor = Some 0, w_visible = False,
            w_all_visible = True\<rparr>)
        (Setter ''pass_through'') = 2"
  using C4_constructor_call_order[of
      "\<lparr>a_name = None, a_visible = True, a_all_visible = False, a_style = None,
        a_style_classes = None, a_tooltip_text = None, a_tooltip_markup = None,
        a_h_align = None, a_v_align = None, a_h_expand = False, a_v_expand = False,
        a_size = None\<rparr>"
      "\<lparr>c_value = 1, c_min_value = 0, c_max_value = 1, c_line_width = 4,
        c_line_style = Member ROUND, c_pie = False\<rparr>"
      "[]" None "\<lambda>s. []"
      "\<lparr>w_margin = MarginTuple [0, 0, 0, 0], w_monitor = Some 0, w_visible = False,
        w_all_visible = True\<rparr>"
      "[(EDGE_TOP, 0), (EDGE_RIGHT, 0), (EDGE_BOTTOM, 0), (EDGE_LEFT, 0)]"]
  by (simp add: Widget_init_def Window_init_def then_calls_def size_call_def show_calls_def
      truthy_align_def truthy_classes_def truthy_str_def extract_margin_four)

text \<open>
  C4 as stated fails: a \<open>WaylandWindow\<close> built with the default arguments connects the
  \<open>notify::title\<close> handler before any setter runs, runs \<open>keyboard_mode\<close> before
  \<open>exclusivity\<close> though the parameters are declared the other way round, and runs the
  \<open>pass_through\<close> setter twice.
\<close>

theorem C4_wayland_window_counterexample:
  "WaylandWindow_init_calls (\<lambda>s. []) [] None
     \<lparr>w_margin = MarginTuple [0, 0, 0, 0], w_monitor = None, w_visible = True,
      w_all_visible = False\<rparr>
   = [BaseInit ''Gtk.Window'',
      Native ''GtkLayerShell.init_for_window'', Native ''GtkLayerShell.set_namespace'',
      Connect ''notify::title'',
      Setter ''layer'', Setter ''anchor'', Setter ''margin'', Setter ''keyboard_mode'',
      Setter ''exclusivity'', Setter ''pass_through'',
      Native ''show'', Setter ''pass_through'']"
  by (simp add: WaylandWindow_init_calls_def WaylandWindow_own_calls_def Window_init_def
      then_calls_def size_call_def post_show_def extract_margin_four)

end
